theory Spec2Isabelle
  imports Main "HOL-Library.Multiset"
begin

section \<open>Python values used by the handlers\<close>

text \<open>
  Strings are lists of \<^typ>\<open>char\<close>; a \<^typ>\<open>char\<close> stands for a code point in the range
  0..255. An exception that no handler catches is the \<open>Inl\<close> branch of a handler's result
  (Flask answers it with status 500).
\<close>

datatype py_error = ValueError | TypeError | OverflowError

subsection \<open>\<open>str(n)\<close> and \<open>int(s)\<close>\<close>

definition digit_char :: "nat \<Rightarrow> char" where
  "digit_char d = char_of (48 + d)"

definition is_digit :: "char \<Rightarrow> bool" where
  "is_digit c \<longleftrightarrow> (48::nat) \<le> of_char c \<and> of_char c \<le> (57::nat)"

definition digit_val :: "char \<Rightarrow> nat" where
  "digit_val c = of_char c - 48"

function str_nat :: "nat \<Rightarrow> string" where
  "str_nat n = (if n < 10 then [digit_char n] else str_nat (n div 10) @ [digit_char (n mod 10)])"
  by pat_completeness auto
termination
  by (relation "measure (\<lambda>n. n)") auto

declare str_nat.simps [simp del]

text \<open>\<open>str(n)\<close> of a Python integer: decimal digits, a leading \<open>-\<close> for a negative number.\<close>

definition py_str :: "int \<Rightarrow> string" where
  "py_str n = (if n < 0 then CHR ''-'' # str_nat (nat (- n)) else str_nat (nat n))"

text \<open>
  \<open>int(s)\<close> in base 10: white space around the literal is skipped (tab, line feed, vertical
  tab, form feed, carriage return, space, and the two spaces of the range 128..255), one sign is
  allowed, and single underscores may stand between digits. Anything else raises \<open>ValueError\<close>.
\<close>

definition int_space :: "char \<Rightarrow> bool" where
  "int_space c \<longleftrightarrow> (of_char c :: nat) \<in> {9, 10, 11, 12, 13, 32, 133, 160}"

definition py_strip :: "string \<Rightarrow> string" where
  "py_strip s = rev (dropWhile int_space (rev (dropWhile int_space s)))"

fun digits_val :: "nat \<Rightarrow> string \<Rightarrow> nat option" where
  "digits_val acc [] = Some acc"
| "digits_val acc (c # cs) =
     (if is_digit c then digits_val (10 * acc + digit_val c) cs
      else if c = CHR ''_'' then
        (case cs of
           [] \<Rightarrow> None
         | d # ds \<Rightarrow> if is_digit d then digits_val (10 * acc + digit_val d) ds else None)
      else None)"

definition parse_nat :: "string \<Rightarrow> nat option" where
  "parse_nat s =
     (case s of
        [] \<Rightarrow> None
      | c # cs \<Rightarrow> if is_digit c then digits_val (digit_val c) cs else None)"

definition py_int :: "string \<Rightarrow> py_error + int" where
  "py_int s =
     (let t = py_strip s in
      case t of
        [] \<Rightarrow> Inl ValueError
      | c # cs \<Rightarrow>
          if c = CHR ''-'' then
            (case parse_nat cs of None \<Rightarrow> Inl ValueError | Some n \<Rightarrow> Inr (- int n))
          else if c = CHR ''+'' then
            (case parse_nat cs of None \<Rightarrow> Inl ValueError | Some n \<Rightarrow> Inr (int n))
          else
            (case parse_nat t of None \<Rightarrow> Inl ValueError | Some n \<Rightarrow> Inr (int n)))"



section \<open>Data model\<close>

text \<open>
  \<open>app/models/chat_history.py\<close>: the columns of \<open>ChatHistory\<close>. The column \<open>id\<close> is the
  field \<open>chat_id\<close> here; \<open>timestamp\<close> is the clock reading (\<open>datetime.utcnow\<close>) taken when
  the row is inserted, as a number.
\<close>

record chat_history =
  chat_id :: int
  user_id :: int
  question :: string
  response :: string
  timestamp :: int

text \<open>The dictionary \<open>ChatHistory.to_dict\<close> returns.\<close>

record chat_dict =
  d_id :: int
  d_user_id :: int
  d_question :: string
  d_response :: string
  d_timestamp :: int


text \<open>
  Modelled from the spec: the \<open>User\<close> model (\<open>app/models/user.py\<close>) is not among the sources.
  The spec gives a user an id, a unique username, a unique email and a password stored only as
  a salted hash; \<open>to_dict\<close> returns id, username and email, never the hash. The hash is an
  opaque value \<open>Hashed p\<close>: \<open>check_password\<close> accepts exactly the password it was made from.
  The constructor stores the username and the email it is given; the routes do the checking.
\<close>

datatype password_hash = Hashed string

record user =
  uid :: int
  username :: string
  email :: string
  pw_hash :: password_hash

record user_dict =
  ud_id :: int
  ud_username :: string
  ud_email :: string

definition user_to_dict :: "user \<Rightarrow> user_dict" where
  "user_to_dict u = \<lparr>ud_id = uid u, ud_username = username u, ud_email = email u\<rparr>"


text \<open>The two tables, each in insertion order.\<close>

record database =
  users :: "user list"
  chats :: "chat_history list"

text \<open>Primary keys are assigned by the store: one more than the largest key in the table.\<close>

definition next_id :: "int list \<Rightarrow> int" where
  "next_id ids = fold max ids 0 + 1"



definition user_get :: "database \<Rightarrow> int \<Rightarrow> user option" where
  "user_get db k = find (\<lambda>u. uid u = k) (users db)"

text \<open>
  \<open>ORDER BY timestamp DESC\<close> is answered by the storage engine. The query names no second
  sort key, so an engine is any function that returns the rows it was given, arranged with
  timestamps non-increasing; how it arranges rows of equal timestamp is its own business.
\<close>

type_synonym engine = "chat_history list \<Rightarrow> chat_history list"

definition order_by_timestamp_desc :: "engine \<Rightarrow> bool" where
  "order_by_timestamp_desc eng \<longleftrightarrow>
     (\<forall>rows. mset (eng rows) = mset rows \<and>
             sorted_wrt (\<lambda>a b. timestamp b \<le> timestamp a) (eng rows))"


definition engine_mirror :: engine where
  "engine_mirror rows = rev (sort_key timestamp rows)"

section \<open>Tokens (\<open>app/__init__.py\<close>)\<close>

text \<open>
  A token is what the JWT library signs: the subject claim and the kind. Signature and expiry
  belong to the library and are not modelled. An identity handed to the library is an integer
  (login passes \<open>user.id\<close>) or a string (refresh passes the subject it read).
\<close>

datatype token_kind = Access | Refresh

record token =
  sub :: string
  kind :: token_kind

datatype identity = IntId int | StrId string

fun user_identity_lookup :: "identity \<Rightarrow> string" where
  "user_identity_lookup (IntId n) = py_str n"
| "user_identity_lookup (StrId s) = s"

definition create_access_token :: "identity \<Rightarrow> token" where
  "create_access_token i = \<lparr>sub = user_identity_lookup i, kind = Access\<rparr>"

definition create_refresh_token :: "identity \<Rightarrow> token" where
  "create_refresh_token i = \<lparr>sub = user_identity_lookup i, kind = Refresh\<rparr>"

definition get_jwt_identity :: "token \<Rightarrow> string" where
  "get_jwt_identity t = sub t"

text \<open>\<open>user_lookup_callback\<close>: the subject parsed back to an integer, then looked up.\<close>

definition user_lookup_callback :: "database \<Rightarrow> token \<Rightarrow> user option" where
  "user_lookup_callback db jwt_data =
     (case py_int (sub jwt_data) of
        Inl e \<Rightarrow> None
      | Inr k \<Rightarrow> user_get db k)"


section \<open>Responses\<close>

datatype body =
    ErrorBody string
  | ValidationBody "string list"
  | SignupBody string user_dict
  | LoginBody token token user_dict
  | AskBody string string int
  | HistoryBody "chat_dict list" nat int int
  | ChatBody chat_dict

type_synonym http = "nat \<times> body"

section \<open>Regular expressions (Python's \<open>re\<close>, as far as \<open>app/utils/security.py\<close> uses it)\<close>

text \<open>
  A position in the subject is the character just before it (if any) and the text still to
  read. Matching a pattern from a position yields the positions where a match can end, in the
  order in which the backtracking matcher tries them: the head of the list is the match that
  \<open>re\<close> reports. Repetition is only needed over single-character classes.
\<close>

type_synonym pos = "char option \<times> string"

record flags =
  dotall :: bool
  ignorecase :: bool

datatype atom = AnyChar | WordChar | SpaceChar

datatype regex =
    Lit string
  | Lazy atom
  | Star atom
  | Plus atom
  | Opt regex
  | Alt "regex list"
  | Seq "regex list"
  | Boundary
  | EndAnchor

text \<open>\<open>\w\<close> and \<open>\s\<close> of a \<open>str\<close> pattern, on the code points 0..255.\<close>

definition word_char :: "char \<Rightarrow> bool" where
  "word_char c \<longleftrightarrow>
     (let n = (of_char c :: nat) in
      (48 \<le> n \<and> n \<le> 57) \<or> (65 \<le> n \<and> n \<le> 90) \<or> n = 95 \<or> (97 \<le> n \<and> n \<le> 122) \<or>
      n \<in> {170, 178, 179, 181, 185, 186, 188, 189, 190} \<or>
      (192 \<le> n \<and> n \<le> 214) \<or> (216 \<le> n \<and> n \<le> 246) \<or> 248 \<le> n)"

definition space_char :: "char \<Rightarrow> bool" where
  "space_char c \<longleftrightarrow>
     (let n = (of_char c :: nat) in
      (9 \<le> n \<and> n \<le> 13) \<or> (28 \<le> n \<and> n \<le> 32) \<or> n = 133 \<or> n = 160)"

definition ascii_lower :: "char \<Rightarrow> char" where
  "ascii_lower c =
     (let n = (of_char c :: nat) in if 65 \<le> n \<and> n \<le> 90 then char_of (n + 32) else c)"

text \<open>A literal character of a pattern against a character of the subject. The literals of
  the patterns below are ASCII, for which ignoring case is folding \<open>A..Z\<close>.\<close>

definition char_eq :: "flags \<Rightarrow> char \<Rightarrow> char \<Rightarrow> bool" where
  "char_eq f c x \<longleftrightarrow> (if ignorecase f then ascii_lower c = ascii_lower x else c = x)"

fun atom_ok :: "flags \<Rightarrow> atom \<Rightarrow> char \<Rightarrow> bool" where
  "atom_ok f AnyChar x \<longleftrightarrow> dotall f \<or> x \<noteq> CHR 0x0A"
| "atom_ok f WordChar x \<longleftrightarrow> word_char x"
| "atom_ok f SpaceChar x \<longleftrightarrow> space_char x"

fun lit :: "flags \<Rightarrow> string \<Rightarrow> pos \<Rightarrow> pos list" where
  "lit f [] p = [p]"
| "lit f (c # cs) (prev, []) = []"
| "lit f (c # cs) (prev, x # xs) = (if char_eq f c x then lit f cs (Some x, xs) else [])"

text \<open>\<open>a*?\<close> tries the shortest repetition first, \<open>a*\<close> the longest.\<close>

fun lazy :: "flags \<Rightarrow> atom \<Rightarrow> pos \<Rightarrow> pos list" where
  "lazy f a (prev, []) = [(prev, [])]"
| "lazy f a (prev, x # xs) =
     (prev, x # xs) # (if atom_ok f a x then lazy f a (Some x, xs) else [])"

fun greedy :: "flags \<Rightarrow> atom \<Rightarrow> pos \<Rightarrow> pos list" where
  "greedy f a (prev, []) = [(prev, [])]"
| "greedy f a (prev, x # xs) =
     (if atom_ok f a x then greedy f a (Some x, xs) else []) @ [(prev, x # xs)]"

text \<open>\<open>\b\<close>: exactly one of the two neighbours is a word character. \<open>$\<close> (no
  \<open>MULTILINE\<close>): the end of the subject, or just before a line feed that ends it.\<close>

definition at_boundary :: "pos \<Rightarrow> bool" where
  "at_boundary p \<longleftrightarrow>
     (case fst p of None \<Rightarrow> False | Some c \<Rightarrow> word_char c) \<noteq>
     (case snd p of [] \<Rightarrow> False | x # xs \<Rightarrow> word_char x)"

definition at_end :: "pos \<Rightarrow> bool" where
  "at_end p \<longleftrightarrow> snd p = [] \<or> snd p = [CHR 0x0A]"

fun ends :: "flags \<Rightarrow> regex \<Rightarrow> pos \<Rightarrow> pos list" where
  "ends f (Lit s) p = lit f s p"
| "ends f (Lazy a) p = lazy f a p"
| "ends f (Star a) p = greedy f a p"
| "ends f (Plus a) p =
     (case snd p of
        [] \<Rightarrow> []
      | x # xs \<Rightarrow> if atom_ok f a x then greedy f a (Some x, xs) else [])"
| "ends f (Opt r) p = ends f r p @ [p]"
| "ends f (Alt rs) p = concat (map (\<lambda>r. ends f r p) rs)"
| "ends f (Seq rs) p = foldl (\<lambda>ps r. concat (map (ends f r) ps)) [p] rs"
| "ends f Boundary p = (if at_boundary p then [p] else [])"
| "ends f EndAnchor p = (if at_end p then [p] else [])"

text \<open>
  \<open>re.sub(pattern, '', subject)\<close>: scanning from the left, the first match that consumes
  something is cut out and the scan goes on behind it; where there is none, the character is
  kept. (A match of nothing is replaced by nothing, after which \<open>re\<close> insists on advancing.)
\<close>

definition first_match :: "flags \<Rightarrow> regex \<Rightarrow> pos \<Rightarrow> pos option" where
  "first_match f r p = find (\<lambda>q. length (snd q) < length (snd p)) (ends f r p)"

function re_sub :: "flags \<Rightarrow> regex \<Rightarrow> pos \<Rightarrow> string" where
  "re_sub f r (prev, []) = []"
| "re_sub f r (prev, x # xs) =
     (case first_match f r (prev, x # xs) of
        Some q \<Rightarrow> re_sub f r q
      | None \<Rightarrow> x # re_sub f r (Some x, xs))"
  by pat_completeness auto
termination
  by (relation "measure (\<lambda>(f, r, p). length (snd p))")
     (auto simp: first_match_def find_Some_iff)

section \<open>Input checks (\<open>app/utils/security.py\<close>)\<close>

definition script_block :: regex where
  "script_block = Seq [Lit ''<script'', Lazy AnyChar, Lit ''>'', Lazy AnyChar, Lit ''</script>'']"

definition any_tag :: regex where
  "any_tag = Seq [Lit ''<'', Lazy AnyChar, Lit ''>'']"

definition sql_keyword :: regex where
  "sql_keyword =
     Seq [Boundary,
          Alt [Lit ''ALTER'', Lit ''CREATE'', Lit ''DELETE'', Lit ''DROP'',
               Seq [Lit ''EXEC'', Opt (Lit ''UTE'')],
               Lit ''INSERT'', Lit ''SELECT'', Lit ''UPDATE''],
          Boundary]"

definition or_and_equality :: regex where
  "or_and_equality =
     Seq [Boundary, Alt [Lit ''OR'', Lit ''AND''], Boundary,
          Plus SpaceChar, Plus WordChar, Star SpaceChar, Lit ''='', Star SpaceChar,
          Plus WordChar, Star SpaceChar, Alt [EndAnchor, Boundary]]"

definition sanitize_input :: "string \<Rightarrow> string" where
  "sanitize_input input_str =
     (if input_str = [] then input_str
      else
        let s1 = re_sub \<lparr>dotall = True, ignorecase = False\<rparr> script_block (None, input_str);
            s2 = re_sub \<lparr>dotall = False, ignorecase = False\<rparr> any_tag (None, s1);
            s3 = re_sub \<lparr>dotall = False, ignorecase = True\<rparr> sql_keyword (None, s2);
            s4 = re_sub \<lparr>dotall = False, ignorecase = True\<rparr> or_and_equality (None, s3)
        in s4)"

text \<open>
  \<open>email_validator.validate_email\<close> is a library outside the sources: a function from the
  address to an error text (\<open>Inl\<close>, for \<open>EmailNotValidError\<close>) or to the normalized address
  (\<open>Inr\<close>). \<open>validate_email\<close> of \<open>security.py\<close> wraps it into a pair.
\<close>

type_synonym email_lib = "string \<Rightarrow> string + string"

definition validate_email :: "email_lib \<Rightarrow> string \<Rightarrow> bool \<times> string" where
  "validate_email validate_email_lib addr =
     (case validate_email_lib addr of
        Inr normalized \<Rightarrow> (True, normalized)
      | Inl e \<Rightarrow> (False, e))"

definition is_upper :: "char \<Rightarrow> bool" where
  "is_upper c \<longleftrightarrow> (65::nat) \<le> of_char c \<and> of_char c \<le> (90::nat)"

definition is_lower :: "char \<Rightarrow> bool" where
  "is_lower c \<longleftrightarrow> (97::nat) \<le> of_char c \<and> of_char c \<le> (122::nat)"

definition is_special :: "char \<Rightarrow> bool" where
  "is_special c \<longleftrightarrow> c \<in> set ''!@#$%^&*(),.?\":{}|<>''"

definition validate_password :: "string \<Rightarrow> bool \<times> string" where
  "validate_password password =
     (if length password < 8 then (False, ''Password must be at least 8 characters long.'')
      else if \<not> list_ex is_digit password
        then (False, ''Password must contain at least one digit.'')
      else if \<not> list_ex is_upper password
        then (False, ''Password must contain at least one uppercase letter.'')
      else if \<not> list_ex is_lower password
        then (False, ''Password must contain at least one lowercase letter.'')
      else if \<not> list_ex is_special password
        then (False, ''Password must contain at least one special character.'')
      else (True, ''Password is valid.''))"

section \<open>Request bodies and their schemas\<close>

text \<open>
  A JSON object is a list of key and value, each key once. \<open>Schema.load\<close> of marshmallow
  either raises \<open>ValidationError\<close> (here: the names of the offending fields, standing for
  the library's message dictionary) or returns the validated fields. A field marked
  \<open>required\<close> must be present, a \<open>Str\<close> field must hold a string, and a key the schema
  does not know is an error.
\<close>

datatype json = JNull | JBool bool | JInt int | JStr string

type_synonym json_object = "(string \<times> json) list"

definition unknown_fields :: "string list \<Rightarrow> json_object \<Rightarrow> string list" where
  "unknown_fields known data = filter (\<lambda>k. k \<notin> set known) (map fst data)"

text \<open>The errors of one \<open>Str\<close> field whose string must satisfy \<open>ok\<close>.\<close>

definition str_field :: "json_object \<Rightarrow> string \<Rightarrow> (string \<Rightarrow> bool) \<Rightarrow> string list" where
  "str_field data key ok =
     (case map_of data key of
        Some (JStr s) \<Rightarrow> if ok s then [] else [key]
      | _ \<Rightarrow> [key])"

definition str_value :: "json_object \<Rightarrow> string \<Rightarrow> string" where
  "str_value data key = (case map_of data key of Some (JStr s) \<Rightarrow> s | _ \<Rightarrow> [])"

text \<open>\<open>UserSchema\<close> of \<open>auth.py\<close>. The check behind \<open>fields.Email\<close> is marshmallow's own
  and is a parameter.\<close>

definition user_schema_load ::
  "(string \<Rightarrow> bool) \<Rightarrow> json_object \<Rightarrow> string list + (string \<times> string \<times> string)" where
  "user_schema_load email_field data =
     (let errors =
            str_field data ''username'' (\<lambda>s. 3 \<le> length s \<and> length s \<le> 50) @
            str_field data ''email'' email_field @
            str_field data ''password'' (\<lambda>s. 8 \<le> length s) @
            unknown_fields [''username'', ''email'', ''password''] data
      in if errors = []
         then Inr (str_value data ''username'', str_value data ''email'',
                   str_value data ''password'')
         else Inl errors)"

text \<open>\<open>QuestionSchema\<close> of \<open>chat.py\<close>.\<close>

definition question_schema_load :: "json_object \<Rightarrow> string list + string" where
  "question_schema_load data =
     (let errors = str_field data ''question'' (\<lambda>s. True) @ unknown_fields [''question''] data
      in if errors = [] then Inr (str_value data ''question'') else Inl errors)"

section \<open>The answer provider (\<open>app/services/llama_service.py\<close>)\<close>

text \<open>
  Everything inside the \<open>try\<close> block of \<open>get_response\<close> (reading the configuration,
  building the index, the retriever and the agent, and \<open>agent.run\<close>) is the remote pipeline:
  a function from the query to the exception it raised (one that \<open>except Exception\<close>
  catches) or to the text it returned.
\<close>

type_synonym 'e pipeline = "string \<Rightarrow> 'e + string"

definition fallback :: string where
  "fallback = ''I'm sorry, but I encountered an error while processing your question.''"

definition get_response :: "'e pipeline \<Rightarrow> string \<Rightarrow> string" where
  "get_response pipeline query =
     (case pipeline query of
        Inr reply \<Rightarrow> reply
      | Inl e \<Rightarrow> fallback)"

section \<open>Authentication routes (\<open>app/routes/auth.py\<close>)\<close>

text \<open>\<open>User.query.filter_by(...).first()\<close>.\<close>

definition user_by_username :: "database \<Rightarrow> string \<Rightarrow> user option" where
  "user_by_username db name = find (\<lambda>u. username u = name) (users db)"

definition user_by_email :: "database \<Rightarrow> string \<Rightarrow> user option" where
  "user_by_email db addr = find (\<lambda>u. email u = addr) (users db)"

text \<open>A handler that writes returns the store as it leaves it, next to the response.\<close>

definition signup ::
  "(string \<Rightarrow> bool) \<Rightarrow> email_lib \<Rightarrow> database \<Rightarrow> json_object \<Rightarrow> database \<times> http" where
  "signup email_field validate_email_lib db data =
     (case user_schema_load email_field data of
        Inl messages \<Rightarrow> (db, (400, ValidationBody messages))
      | Inr (v_username, v_email, v_password) \<Rightarrow>
          let username = sanitize_input v_username;
              email = v_email;
              password = v_password;
              (is_valid_email, email_msg) = validate_email validate_email_lib email
          in if \<not> is_valid_email then (db, (400, ErrorBody email_msg))
             else
               let (is_valid_password, password_msg) = validate_password password
               in if \<not> is_valid_password then (db, (400, ErrorBody password_msg))
                  else if user_by_username db username \<noteq> None
                    then (db, (409, ErrorBody ''Username already exists''))
                  else if user_by_email db email \<noteq> None
                    then (db, (409, ErrorBody ''Email already exists''))
                  else
                    let new_user =
                          \<lparr>uid = next_id (map uid (users db)), username = username,
                           email = email, pw_hash = Hashed password\<rparr>
                    in (db\<lparr>users := users db @ [new_user]\<rparr>,
                        (201, SignupBody ''User created successfully''
                                (user_to_dict new_user))))"










section \<open>Chat routes (\<open>app/routes/chat.py\<close>)\<close>




text \<open>\<open>now\<close> is the clock reading the new row gets as its timestamp.\<close>

definition ask_question ::
  "'e pipeline \<Rightarrow> int \<Rightarrow> database \<Rightarrow> string \<Rightarrow> json_object \<Rightarrow> py_error + database \<times> http" where
  "ask_question pipeline now db ident data =
     (case question_schema_load data of
        Inl messages \<Rightarrow> Inr (db, (400, ValidationBody messages))
      | Inr validated \<Rightarrow>
          (case py_int ident of
             Inl e \<Rightarrow> Inl e
           | Inr k \<Rightarrow>
               (case user_get db k of
                  None \<Rightarrow> Inr (db, (404, ErrorBody ''User not found''))
                | Some user \<Rightarrow>
                    let question = sanitize_input validated;
                        response = get_response pipeline question;
                        chat_history =
                          \<lparr>chat_id = next_id (map chat_id (chats db)), user_id = uid user,
                           question = question, response = response, timestamp = now\<rparr>
                    in Inr (db\<lparr>chats := chats db @ [chat_history]\<rparr>,
                            (200, AskBody question response (chat_id chat_history))))))"

section \<open>Orders the list operation could promise\<close>



section \<open>Example stores\<close>



text \<open>No rows at all, and one registered user (the account the repository's tests create).\<close>

definition empty_store :: database where
  "empty_store = \<lparr>users = [], chats = []\<rparr>"

definition store_testuser :: database where
  "store_testuser =
     \<lparr>users = [\<lparr>uid = 1, username = ''testuser'', email = ''test@example.com'',
                 pw_hash = Hashed ''Test@123''\<rparr>],
      chats = []\<rparr>"



section \<open>Stand-ins for the email libraries\<close>

text \<open>
  For running \<open>signup\<close> on concrete payloads: both checks accept an address that contains
  \<open>@\<close>, and normalizing lowers the case of the domain, as \<open>email_validator\<close> does.
\<close>

definition example_email_field :: "string \<Rightarrow> bool" where
  "example_email_field e \<longleftrightarrow> CHR ''@'' \<in> set e"

definition lower_domain :: "string \<Rightarrow> string" where
  "lower_domain e =
     takeWhile (\<lambda>c. c \<noteq> CHR ''@'') e @ map ascii_lower (dropWhile (\<lambda>c. c \<noteq> CHR ''@'') e)"

definition example_email_lib :: email_lib where
  "example_email_lib e =
     (if CHR ''@'' \<in> set e then Inr (lower_domain e)
      else Inl ''The email address is not valid. It must have exactly one @-sign.'')"

section \<open>Integers and their decimal strings\<close>

lemma is_digit_digit_char: "d < 10 \<Longrightarrow> is_digit (digit_char d)"
  by (simp add: is_digit_def digit_char_def)

lemma digit_val_digit_char: "d < 10 \<Longrightarrow> digit_val (digit_char d) = d"
  by (simp add: digit_val_def digit_char_def)

lemma str_nat_digits: "list_all is_digit (str_nat n)"
proof (induction n rule: str_nat.induct)
  case (1 n)
  show ?case
  proof (cases "n < 10")
    case True
    then show ?thesis by (simp add: str_nat.simps [of n] is_digit_digit_char)
  next
    case False
    with 1 show ?thesis by (simp add: str_nat.simps [of n] is_digit_digit_char)
  qed
qed

lemma str_nat_nonempty: "str_nat n \<noteq> []"
  by (simp add: str_nat.simps [of n])

lemma digits_val_append:
  "list_all is_digit xs \<Longrightarrow>
   digits_val acc (xs @ r) = digits_val (foldl (\<lambda>a c. 10 * a + digit_val c) acc xs) r"
  by (induction xs arbitrary: acc) simp_all

lemma foldl_str_nat: "foldl (\<lambda>a c. 10 * a + digit_val c) acc (str_nat n) = acc * 10 ^ length (str_nat n) + n"
proof (induction n arbitrary: acc rule: str_nat.induct)
  case (1 n)
  show ?case
  proof (cases "n < 10")
    case True
    then show ?thesis by (simp add: str_nat.simps [of n] digit_val_digit_char)
  next
    case False
    with 1 [of acc] show ?thesis
      by (simp add: str_nat.simps [of n] digit_val_digit_char algebra_simps)
  qed
qed

lemma parse_nat_str_nat: "parse_nat (str_nat n) = Some n"
proof -
  obtain c cs where cs: "str_nat n = c # cs"
    using str_nat_nonempty [of n] by (cases "str_nat n") auto
  have d: "list_all is_digit (c # cs)" using str_nat_digits [of n] cs by simp
  have "digits_val 0 ((c # cs) @ []) = digits_val (foldl (\<lambda>a c. 10 * a + digit_val c) 0 (c # cs)) []"
    using d by (rule digits_val_append)
  then have "digits_val 0 (c # cs) = Some n"
    using foldl_str_nat [of 0 n] cs by simp
  then show ?thesis using d cs by (simp add: parse_nat_def)
qed

lemma str_nat_no_space: "list_all (\<lambda>c. \<not> int_space c) (str_nat n)"
proof -
  have "is_digit c \<Longrightarrow> \<not> int_space c" for c
    by (auto simp: is_digit_def int_space_def)
  then show ?thesis using str_nat_digits [of n] by (auto simp: list_all_iff)
qed

lemma py_strip_id: "s \<noteq> [] \<Longrightarrow> \<not> int_space (hd s) \<Longrightarrow> \<not> int_space (last s) \<Longrightarrow> py_strip s = s"
proof -
  assume a: "s \<noteq> []" "\<not> int_space (hd s)" "\<not> int_space (last s)"
  then have 1: "dropWhile int_space s = s" by (cases s) auto
  from a have "rev s \<noteq> []" "\<not> int_space (hd (rev s))" by (auto simp: hd_rev)
  then have 2: "dropWhile int_space (rev s) = rev s" by (cases "rev s") auto
  show ?thesis by (simp add: py_strip_def 1 2)
qed

lemma str_nat_hd_last: "is_digit (hd (str_nat n)) \<and> is_digit (last (str_nat n))"
  using str_nat_digits [of n] str_nat_nonempty [of n]
  by (cases "str_nat n") (auto simp: list_all_iff)

lemma is_digit_not_space: "is_digit c \<Longrightarrow> \<not> int_space c"
  by (auto simp: is_digit_def int_space_def)

lemma is_digit_not_sign: "is_digit c \<Longrightarrow> c \<noteq> CHR ''-'' \<and> c \<noteq> CHR ''+''"
  by (auto simp: is_digit_def)

lemma py_int_py_str: "py_int (py_str n) = Inr n"
proof (cases "n < 0")
  case True
  let ?m = "nat (- n)"
  have ms: "\<not> int_space CHR ''-''" by (simp add: int_space_def)
  have "\<not> int_space (last (CHR ''-'' # str_nat ?m))"
    using str_nat_hd_last [of ?m] str_nat_nonempty [of ?m] by (simp add: is_digit_not_space)
  with ms have "py_strip (CHR ''-'' # str_nat ?m) = CHR ''-'' # str_nat ?m"
    by (intro py_strip_id) simp_all
  then show ?thesis using True
    by (simp add: py_int_def py_str_def parse_nat_str_nat)
next
  case False
  let ?m = "nat n"
  obtain c cs where cs: "str_nat ?m = c # cs"
    using str_nat_nonempty [of ?m] by (cases "str_nat ?m") auto
  have dc: "is_digit c" using str_nat_hd_last [of ?m] cs by simp
  have "py_strip (str_nat ?m) = str_nat ?m"
    using str_nat_hd_last [of ?m] str_nat_nonempty [of ?m]
    by (intro py_strip_id) (auto simp: is_digit_not_space)
  moreover have "parse_nat (c # cs) = Some ?m"
    using parse_nat_str_nat [of ?m] cs by simp
  ultimately show ?thesis using False cs is_digit_not_sign [OF dc]
    by (simp add: py_int_def py_str_def)
qed

section \<open>The chat ledger\<close>

subsection \<open>Engines\<close>


lemma engine_mirror_sound: "order_by_timestamp_desc engine_mirror"
proof -
  have "sorted (map timestamp (sort_key timestamp rows))" for rows
    by (rule sorted_sort_key)
  then have s: "sorted_wrt (\<lambda>a b. timestamp b \<le> timestamp a) (rev (sort_key timestamp rows))" for rows
    by (simp add: sorted_map sorted_wrt_rev)
  show ?thesis
    unfolding order_by_timestamp_desc_def engine_mirror_def
    by (intro allI conjI) (simp, rule s)
qed

subsection \<open>The gate\<close>




subsection \<open>Query arguments\<close>








subsection \<open>Listing a user's history\<close>










subsection \<open>Primary keys\<close>

text \<open>A new key is larger than every key in the table, so ask-question keeps the entry ids
  distinct; it never touches the users and at most appends one entry.\<close>

lemma fold_max_ge: "a \<le> fold max ids (a::int)"
  by (induction ids arbitrary: a) (auto intro: order_trans [OF max.cobounded2])

lemma fold_max_mem: "x \<in> set ids \<Longrightarrow> x \<le> fold max ids (a::int)"
proof (induction ids arbitrary: a)
  case Nil
  then show ?case by simp
next
  case (Cons y ys)
  show ?case
  proof (cases "x = y")
    case True
    have "y \<le> max y a" by simp
    also have "\<dots> \<le> fold max ys (max y a)" by (rule fold_max_ge)
    finally show ?thesis using True by simp
  next
    case False
    with Cons show ?thesis by simp
  qed
qed

lemma next_id_fresh: "next_id ids \<notin> set ids"
proof
  assume "next_id ids \<in> set ids"
  then have "next_id ids \<le> fold max ids 0" by (rule fold_max_mem)
  then show False by (simp add: next_id_def)
qed

lemma ask_question_keeps_ids_distinct:
  assumes "distinct (map chat_id (chats db))"
      and "ask_question pipeline now db ident data = Inr (db', r)"
  shows "distinct (map chat_id (chats db'))"
  using assms next_id_fresh [of "map chat_id (chats db)"]
  by (auto simp: ask_question_def Let_def split: sum.splits option.splits)

lemma ask_question_appends:
  assumes "ask_question pipeline now db ident data = Inr (db', r)"
  shows "users db' = users db \<and> (\<exists>new. chats db' = chats db \<or> chats db' = chats db @ [new])"
  using assms
  by (auto simp: ask_question_def Let_def split: sum.splits option.splits)

subsection \<open>Fetching one entry\<close>







section \<open>Tokens\<close>

text \<open>
  C7: for every user id \<open>n\<close>, the access token and the refresh token issued for it carry
  \<open>str(n)\<close> as their subject, and validation (\<open>int\<close> of the subject, as
  \<open>user_lookup_callback\<close> and the handlers do) gives back \<open>n\<close>, so the lookup finds the
  user with id \<open>n\<close>.
\<close>

theorem token_subject_round_trip:
  "sub (create_access_token (IntId n)) = py_str n \<and>
   sub (create_refresh_token (IntId n)) = py_str n \<and>
   py_int (get_jwt_identity (create_access_token (IntId n))) = Inr n \<and>
   py_int (get_jwt_identity (create_refresh_token (IntId n))) = Inr n \<and>
   user_lookup_callback db (create_access_token (IntId n)) = user_get db n \<and>
   user_lookup_callback db (create_refresh_token (IntId n)) = user_get db n"
  by (simp add: create_access_token_def create_refresh_token_def get_jwt_identity_def
      user_lookup_callback_def py_int_py_str)

section \<open>The sanitizer on concrete inputs\<close>




lemma sanitize_Q: "sanitize_input ''Q'' = ''Q''"
  by code_simp

section \<open>Signing up\<close>

lemma signup_valid:
  assumes "user_schema_load F data = Inr (u, e, p)" "L e = Inr n" "fst (validate_password p)"
  shows "signup F L db data =
     (if user_by_username db (sanitize_input u) \<noteq> None
        then (db, (409, ErrorBody ''Username already exists''))
      else if user_by_email db e \<noteq> None
        then (db, (409, ErrorBody ''Email already exists''))
      else (db\<lparr>users := users db @
                  [\<lparr>uid = next_id (map uid (users db)), username = sanitize_input u,
                    email = e, pw_hash = Hashed p\<rparr>]\<rparr>,
            (201, SignupBody ''User created successfully''
                    (user_to_dict \<lparr>uid = next_id (map uid (users db)),
                       username = sanitize_input u, email = e, pw_hash = Hashed p\<rparr>))))"
  using assms
  by (cases "validate_password p") (simp add: signup_def validate_email_def Let_def)








text \<open>Whatever the library returns as the normalized address, a successful signup stores the
  address as it was submitted.\<close>

lemma signup_email_as_submitted:
  assumes "user_schema_load F data = Inr (u, e, p)" "L e = Inr n" "fst (validate_password p)"
      and "user_by_username db (sanitize_input u) = None" "user_by_email db e = None"
  shows "email (last (users (fst (signup F L db data)))) = e"
  using assms by (simp add: signup_valid)

text \<open>
  C8: the claim is that the stored and returned email is the normalized form. \<open>validate_email\<close>
  computes the normalized address, but \<open>signup\<close> reads the second component of its result
  only when the check fails: what is looked up, stored and returned is the address as
  submitted. Here the library normalizes \<open>test@EXAMPLE.COM\<close> to \<open>test@example.com\<close> and the
  new user keeps \<open>test@EXAMPLE.COM\<close>.
\<close>

theorem signup_keeps_raw_email:
  "validate_email example_email_lib ''test@EXAMPLE.COM'' = (True, ''test@example.com'') \<and>
   signup example_email_field example_email_lib empty_store
     [(''username'', JStr ''testuser''), (''email'', JStr ''test@EXAMPLE.COM''),
      (''password'', JStr ''Test@123'')] =
     (\<lparr>users = [\<lparr>uid = 1, username = ''testuser'', email = ''test@EXAMPLE.COM'',
                 pw_hash = Hashed ''Test@123''\<rparr>],
       chats = []\<rparr>,
      (201, SignupBody ''User created successfully''
              \<lparr>ud_id = 1, ud_username = ''testuser'', ud_email = ''test@EXAMPLE.COM''\<rparr>))"
  by code_simp

section \<open>Logging in\<close>













section \<open>Asking a question\<close>

lemma payload_Q: "question_schema_load [(''question'', JStr ''Q'')] = Inr ''Q''"
  by code_simp

lemma user_get_testuser:
  "user_get store_testuser 1 =
     Some \<lparr>uid = 1, username = ''testuser'', email = ''test@example.com'',
           pw_hash = Hashed ''Test@123''\<rparr>"
  by (simp add: user_get_def store_testuser_def)

text \<open>
  C2: when the pipeline behind \<open>get_response\<close> raises, for a request that passed the schema
  and whose user exists, ask-question still answers 200; the response field is the fixed
  fallback sentence, and the new ledger entry holds that same sentence as its response.
  The result is a response (\<open>Inr\<close>), never an exception.
\<close>

theorem ask_question_provider_failure:
  assumes "question_schema_load data = Inr q"
      and "user_get db k = Some u"
      and "pipeline (sanitize_input q) = Inl e"
  shows "ask_question pipeline now db (user_identity_lookup (IntId k)) data =
           Inr (db\<lparr>chats := chats db @
                     [\<lparr>chat_id = next_id (map chat_id (chats db)), user_id = uid u,
                       question = sanitize_input q,
                       response = ''I'm sorry, but I encountered an error while processing your question.'',
                       timestamp = now\<rparr>]\<rparr>,
                (200, AskBody (sanitize_input q)
                        ''I'm sorry, but I encountered an error while processing your question.''
                        (next_id (map chat_id (chats db)))))"
  using assms
  by (simp add: ask_question_def py_int_py_str get_response_def fallback_def Let_def)

theorem ask_question_provider_failure_witness:
  "question_schema_load [(''question'', JStr ''Q'')] = Inr ''Q'' \<and>
   user_get store_testuser 1 =
     Some \<lparr>uid = 1, username = ''testuser'', email = ''test@example.com'',
           pw_hash = Hashed ''Test@123''\<rparr> \<and>
   ask_question (\<lambda>q. Inl ()) 7 store_testuser (user_identity_lookup (IntId 1))
       [(''question'', JStr ''Q'')] =
     Inr (store_testuser\<lparr>chats :=
            [\<lparr>chat_id = 1, user_id = 1, question = ''Q'',
              response = ''I'm sorry, but I encountered an error while processing your question.'',
              timestamp = 7\<rparr>]\<rparr>,
          (200, AskBody ''Q''
                  ''I'm sorry, but I encountered an error while processing your question.'' 1))"
  using payload_Q user_get_testuser
    ask_question_provider_failure [of "[(''question'', JStr ''Q'')]" "''Q''" store_testuser 1
      "\<lparr>uid = 1, username = ''testuser'', email = ''test@example.com'',
        pw_hash = Hashed ''Test@123''\<rparr>" "\<lambda>q. Inl ()" "()" 7]
  by (simp add: sanitize_Q store_testuser_def next_id_def)

text \<open>For a request that passed the schema and whose user exists, the question that is stored
  and echoed is \<open>sanitize_input\<close> of the question sent.\<close>

lemma ask_question_stores_sanitized:
  assumes "question_schema_load data = Inr q" and "user_get db k = Some u"
  shows "ask_question pipeline now db (user_identity_lookup (IntId k)) data =
           Inr (db\<lparr>chats := chats db @
                     [\<lparr>chat_id = next_id (map chat_id (chats db)), user_id = uid u,
                       question = sanitize_input q,
                       response = get_response pipeline (sanitize_input q),
                       timestamp = now\<rparr>]\<rparr>,
                (200, AskBody (sanitize_input q) (get_response pipeline (sanitize_input q))
                        (next_id (map chat_id (chats db)))))"
  using assms by (simp add: ask_question_def py_int_py_str Let_def)

text \<open>
  C9: the claim is that the question stored and echoed is the sanitized one, with
  \<open><script>\<close> blocks and all other HTML tags removed. \<open>sanitize_input\<close> is written to do
  that ("Sanitize input to prevent XSS", "Remove potentially dangerous HTML tags"), and its
  script pattern is matched with \<open>re.DOTALL\<close>; the tag pattern is not, so \<open>.\<close> stops at a
  line feed and a tag with a line break inside is kept. The question \<open><b\<close>, line feed,
  \<open>>hi\<close> is stored and echoed with its tag; and since the pass that removes \<open>OR\<close>, line
  feed, \<open>1=1\<close> runs after the tag pass, the text \<open><b OR\<close>, line feed, \<open>1=1>\<close> is
  sanitized to the tag \<open><b >\<close>.
\<close>

theorem ask_question_keeps_tag:
  "ask_question (\<lambda>q. Inr ''R'' :: unit + string) 7 store_testuser
       (user_identity_lookup (IntId 1))
       [(''question'', JStr [CHR ''<'', CHR ''b'', CHR 0x0A, CHR ''>'', CHR ''h'', CHR ''i''])] =
     Inr (store_testuser\<lparr>chats :=
            [\<lparr>chat_id = 1, user_id = 1,
              question = [CHR ''<'', CHR ''b'', CHR 0x0A, CHR ''>'', CHR ''h'', CHR ''i''],
              response = ''R'', timestamp = 7\<rparr>]\<rparr>,
          (200, AskBody [CHR ''<'', CHR ''b'', CHR 0x0A, CHR ''>'', CHR ''h'', CHR ''i''] ''R'' 1)) \<and>
   sanitize_input [CHR ''<'', CHR ''b'', CHR '' '', CHR ''O'', CHR ''R'', CHR 0x0A,
                   CHR ''1'', CHR ''='', CHR ''1'', CHR ''>''] = ''<b >''"
  by code_simp

end
